theory Spec2Isabelle
  imports Complex_Main "HOL-Library.Product_Lexorder"
begin

section \<open>Configuration of \<^verbatim>\<open>solve\<close>\<close>

text \<open>
  The notebook \<^verbatim>\<open>psi_ip_ortools_train_test_histogram_data.ipynb\<close> fixes its
  configuration as local variables of \<^verbatim>\<open>solve\<close>. Densities, PSI values and
  thresholds are modelled as real numbers (exact arithmetic); the only non-finite values
  the code can produce from finite, non-negative histograms are the quotients by a zero
  class count, which are modelled by \<open>npfloat\<close> below.
\<close>

definition min_edge :: int where
  "min_edge = 300"

definition max_edge :: int where
  "max_edge = 850"

text \<open>\<^verbatim>\<open>train_size = len(np.arange(min_edge, max_edge + 1, 1))\<close>\<close>

definition train_size :: nat where
  "train_size = nat (max_edge + 1 - min_edge)"

definition epsilon :: real where
  "epsilon = 1 / 10 ^ 8"

definition max_num_bins :: int where
  "max_num_bins = 25"

definition min_num_bins :: int where
  "min_num_bins = 5"

definition alphas :: "real list" where
  "alphas = [1 / 2]"

definition thresholds :: "real list" where
  "thresholds = [1 / 10]"

section \<open>Values of numpy and Python that the code relies on\<close>

text \<open>
  A numpy float that is either a finite real or one of the values a division by zero
  yields. numpy divides by zero with a warning, never with an exception.
\<close>

datatype npfloat = Fin real | PInf | NInf | NaN

definition np_div :: "real \<Rightarrow> real \<Rightarrow> npfloat" where
  "np_div a b =
     (if b \<noteq> 0 then Fin (a / b)
      else if a = 0 then NaN
      else if 0 < a then PInf else NInf)"

fun np_scale :: "real \<Rightarrow> npfloat \<Rightarrow> npfloat" where
  "np_scale c (Fin v) = Fin (c * v)"
| "np_scale c NaN = NaN"
| "np_scale c PInf = (if c = 0 then NaN else if 0 < c then PInf else NInf)"
| "np_scale c NInf = (if c = 0 then NaN else if 0 < c then NInf else PInf)"

fun np_sub :: "npfloat \<Rightarrow> npfloat \<Rightarrow> npfloat" where
  "np_sub (Fin a) (Fin b) = Fin (a - b)"
| "np_sub NaN _ = NaN"
| "np_sub _ NaN = NaN"
| "np_sub PInf PInf = NaN"
| "np_sub NInf NInf = NaN"
| "np_sub PInf _ = PInf"
| "np_sub NInf _ = NInf"
| "np_sub (Fin a) PInf = NInf"
| "np_sub (Fin a) NInf = PInf"

text \<open>
  Comparisons of a numpy float with a finite value. Every comparison with NaN is false.
\<close>

definition np_lt :: "npfloat \<Rightarrow> real \<Rightarrow> bool" where
  "np_lt p t = (case p of Fin v \<Rightarrow> v < t | NInf \<Rightarrow> True | PInf \<Rightarrow> False | NaN \<Rightarrow> False)"

definition np_ge :: "npfloat \<Rightarrow> real \<Rightarrow> bool" where
  "np_ge p t = (case p of Fin v \<Rightarrow> v \<ge> t | PInf \<Rightarrow> True | NInf \<Rightarrow> False | NaN \<Rightarrow> False)"

text \<open>
  The exceptions of Python that the modelled part of the code can raise.
\<close>

datatype error = IndexError | ValueError

text \<open>
  A slice \<^verbatim>\<open>xs[a:b]\<close>: a negative bound counts from the end, and both bounds are
  clamped to the length.
\<close>

definition clamp_index :: "nat \<Rightarrow> int \<Rightarrow> nat" where
  "clamp_index n i = (if i < 0 then nat (max 0 (i + int n)) else min (nat i) n)"

definition py_slice :: "'a list \<Rightarrow> int \<Rightarrow> int \<Rightarrow> 'a list" where
  "py_slice xs a b =
     (let s = clamp_index (length xs) a; e = clamp_index (length xs) b
      in take (e - s) (drop s xs))"

section \<open>Interval frequencies and PSI matrices\<close>

text \<open>
  \<^verbatim>\<open>percent_days_train[i, j, k] = np.sum(hist[j: k])\<close> for
  \<^verbatim>\<open>j in range(train_size - 1)\<close>, \<^verbatim>\<open>k in range(j + 1, train_size)\<close>; every other
  entry keeps the zero of \<^verbatim>\<open>np.zeros\<close>.
\<close>

definition percent :: "real list \<Rightarrow> nat \<Rightarrow> nat \<Rightarrow> real" where
  "percent hist j k =
     (if j < k \<and> k < train_size then sum_list (py_slice hist (int j) (int k)) else 0)"

text \<open>The PSI term \<^verbatim>\<open>(p - q) * np.log((p + epsilon) / (q + epsilon))\<close>.\<close>

definition psi_term :: "real \<Rightarrow> real \<Rightarrow> real \<Rightarrow> real" where
  "psi_term eps p q = (p - q) * ln ((p + eps) / (q + eps))"

text \<open>
  \<^verbatim>\<open>psi_train[i]\<close> is built from days \<open>i + 1\<close> and \<open>i\<close> (the loop runs over
  \<^verbatim>\<open>range(1, num_days_train)\<close> and appends).
\<close>

definition psi_train :: "real list list \<Rightarrow> nat \<Rightarrow> nat \<Rightarrow> nat \<Rightarrow> real" where
  "psi_train X i j k = psi_term epsilon (percent (X ! (i + 1)) j k) (percent (X ! i) j k)"

text \<open>
  \<^verbatim>\<open>psi_train[(1 - y_train).astype(bool)]\<close> selects the transitions whose label is
  not 1, \<^verbatim>\<open>psi_train[y_train.astype(bool)]\<close> those whose label is not 0; the sums over
  the selected transitions are divided by \<^verbatim>\<open>np.sum(1 - y_train)\<close> and
  \<^verbatim>\<open>np.sum(y_train)\<close>.
\<close>

definition psi_0_train :: "real list list \<Rightarrow> real list \<Rightarrow> nat \<Rightarrow> nat \<Rightarrow> npfloat" where
  "psi_0_train X y j k =
     np_div (sum_list (map (\<lambda>i. psi_train X i j k) (filter (\<lambda>i. 1 - y ! i \<noteq> 0) [0..<length y])))
            (sum_list (map (\<lambda>v. 1 - v) y))"

definition psi_1_train :: "real list list \<Rightarrow> real list \<Rightarrow> nat \<Rightarrow> nat \<Rightarrow> npfloat" where
  "psi_1_train X y j k =
     np_div (sum_list (map (\<lambda>i. psi_train X i j k) (filter (\<lambda>i. y ! i \<noteq> 0) [0..<length y])))
            (sum_list y)"

text \<open>
  The boolean mask must be as long as \<^verbatim>\<open>psi_train\<close>, which has one matrix per
  transition; numpy raises \<^verbatim>\<open>IndexError\<close> otherwise. Nothing else in the aggregation
  raises.
\<close>

definition psi_aggregate ::
  "real list list \<Rightarrow> real list \<Rightarrow> error + ((nat \<Rightarrow> nat \<Rightarrow> npfloat) \<times> (nat \<Rightarrow> nat \<Rightarrow> npfloat))" where
  "psi_aggregate X y =
     (if length y \<noteq> length X - 1 then Inl IndexError
      else Inr (psi_0_train X y, psi_1_train X y))"

section \<open>Aggregated bins and the classification rule\<close>

text \<open>
  \<^verbatim>\<open>hist_1.append(np.sum(X[i, final_bin_edges[j] - 300: final_bin_edges[j + 1] - 300]))\<close>
  for \<^verbatim>\<open>j in range(len(final_bin_edges) - 1)\<close>.
\<close>

definition bin_hist :: "int list \<Rightarrow> real list \<Rightarrow> real list" where
  "bin_hist edges row =
     map (\<lambda>j. sum_list (py_slice row (edges ! j - 300) (edges ! (j + 1) - 300)))
         [0..<length edges - 1]"

text \<open>
  \<^verbatim>\<open>psis = (hist_1 - hist_2) * np.log((hist_1 + epsilon) / (hist_2 + epsilon))\<close>,
  \<^verbatim>\<open>psi = np.sum(psis)\<close>, with \<^verbatim>\<open>hist_1\<close> from day \<open>i\<close> and \<^verbatim>\<open>hist_2\<close> from day
  \<open>i + 1\<close>.
\<close>

definition day_psi :: "int list \<Rightarrow> real list list \<Rightarrow> nat \<Rightarrow> real" where
  "day_psi edges X i =
     sum_list (map2 (psi_term epsilon) (bin_hist edges (X ! i)) (bin_hist edges (X ! (i + 1))))"

text \<open>
  The rule of the training sweep and of the test evaluation:
  \<^verbatim>\<open>if (y == 0 and psi < threshold) or (y == 1 and psi >= threshold): pred = y\<close>,
  \<^verbatim>\<open>else: pred = 1 - y\<close>. The value \<^verbatim>\<open>psi = np.sum(psis)\<close> is a numpy float: it is
  NaN as soon as a density is NaN, as it is after \<^verbatim>\<open>preprocess_data\<close> has divided a
  data set by a first day whose densities sum to 0.
\<close>

definition classify :: "real \<Rightarrow> npfloat \<Rightarrow> real \<Rightarrow> real" where
  "classify y psi threshold =
     (if (y = 0 \<and> np_lt psi threshold) \<or> (y = 1 \<and> np_ge psi threshold) then y else 1 - y)"

text \<open>The rule that looks at the PSI value and the threshold only.\<close>

definition pure_rule :: "npfloat \<Rightarrow> real \<Rightarrow> real" where
  "pure_rule psi threshold = (if np_ge psi threshold then 1 else 0)"

text \<open>
  The data sets of the model hold finite densities, so the PSI of a transition is the
  finite value \<open>day_psi\<close>.
\<close>

definition predict :: "int list \<Rightarrow> real list list \<Rightarrow> real list \<Rightarrow> real \<Rightarrow> real list" where
  "predict edges X y threshold =
     map (\<lambda>i. classify (y ! i) (Fin (day_psi edges X i)) threshold) [0..<length X - 1]"

section \<open>The edge-selection program\<close>

text \<open>
  \<^verbatim>\<open>x[i, j]\<close> is a 0/1 integer variable of the solver when \<^verbatim>\<open>j > i\<close> and the constant 0
  otherwise. An assignment gives every variable its value; \<open>xvar\<close> reads an entry of
  the matrix \<^verbatim>\<open>x\<close> under an assignment.
\<close>

type_synonym assignment = "nat \<Rightarrow> nat \<Rightarrow> real"

definition xvar :: "assignment \<Rightarrow> nat \<Rightarrow> nat \<Rightarrow> real" where
  "xvar x i j = (if j > i then x i j else 0)"

text \<open>\<^verbatim>\<open>solver.IntVar(0, 1, ...)\<close>\<close>

definition is_binary :: "nat \<Rightarrow> assignment \<Rightarrow> bool" where
  "is_binary B x = (\<forall>i\<in>{0..<B}. \<forall>j\<in>{i + 1..<B}. x i j = 0 \<or> x i j = 1)"

text \<open>
  For \<^verbatim>\<open>i in range(1, train_size - 1)\<close>: \<^verbatim>\<open>Sum(x[: i, i]) <= 1\<close>,
  \<^verbatim>\<open>Sum(x[i, i + 1:]) <= 1\<close> and \<^verbatim>\<open>Sum(x[: i, i]) == Sum(x[i, i + 1:])\<close>.
\<close>

definition inbound :: "assignment \<Rightarrow> nat \<Rightarrow> real" where
  "inbound x p = (\<Sum>r\<in>{0..<p}. xvar x r p)"

definition outbound :: "nat \<Rightarrow> assignment \<Rightarrow> nat \<Rightarrow> real" where
  "outbound B x p = (\<Sum>c\<in>{p + 1..<B}. xvar x p c)"

definition flow_constraints :: "nat \<Rightarrow> assignment \<Rightarrow> bool" where
  "flow_constraints B x =
     (\<forall>p\<in>{1..<B - 1}. inbound x p \<le> 1 \<and> outbound B x p \<le> 1 \<and> inbound x p = outbound B x p)"

text \<open>\<^verbatim>\<open>Sum(x[0, 1:]) == 1\<close> and \<^verbatim>\<open>Sum(x[0: -1, -1]) == 1\<close>\<close>

definition in_and_out :: "nat \<Rightarrow> assignment \<Rightarrow> bool" where
  "in_and_out B x =
     ((\<Sum>c\<in>{1..<B}. xvar x 0 c) = 1 \<and> (\<Sum>r\<in>{0..<B - 1}. xvar x r (B - 1)) = 1)"

text \<open>\<^verbatim>\<open>Sum(x.flatten()) <= max_num_bins\<close> and \<^verbatim>\<open>Sum(x.flatten()) >= min_num_bins\<close>\<close>

definition num_selected :: "nat \<Rightarrow> assignment \<Rightarrow> real" where
  "num_selected B x = (\<Sum>i\<in>{0..<B}. \<Sum>j\<in>{0..<B}. xvar x i j)"

definition cardinality :: "nat \<Rightarrow> assignment \<Rightarrow> bool" where
  "cardinality B x =
     (num_selected B x \<le> of_int max_num_bins \<and> num_selected B x \<ge> of_int min_num_bins)"

definition feasible :: "assignment \<Rightarrow> bool" where
  "feasible x =
     (is_binary train_size x \<and> flow_constraints train_size x \<and> in_and_out train_size x
      \<and> cardinality train_size x)"

text \<open>
  The pair \<open>(i, j)\<close> is selected: the bin from position \<open>i\<close> to position \<open>j\<close>.
\<close>

definition edge :: "nat \<Rightarrow> assignment \<Rightarrow> nat \<Rightarrow> nat \<Rightarrow> bool" where
  "edge B x i j = (i < j \<and> j < B \<and> x i j = 1)"

text \<open>
  The selected pairs are the steps of one path \<open>ps\<close> from position 0 to position
  \<open>B - 1\<close> that visits increasing positions: consecutive bins that cover the support.
\<close>

definition is_path :: "nat \<Rightarrow> assignment \<Rightarrow> nat list \<Rightarrow> bool" where
  "is_path B x ps =
     (ps \<noteq> [] \<and> hd ps = 0 \<and> last ps = B - 1 \<and> sorted_wrt (<) ps
      \<and> set (zip ps (tl ps)) = {(i, j). edge B x i j})"

text \<open>
  An assignment that selects the bins 300-301, 301-302, 302-303, 303-304 and 304-850.
\<close>

definition example_solution :: assignment where
  "example_solution i j = (if (j = i + 1 \<and> i < 4) \<or> (i = 4 \<and> j = 550) then 1 else 0)"

text \<open>The result statuses of the solver's \<^verbatim>\<open>Solve()\<close>.\<close>

datatype status =
  OPTIMAL | FEASIBLE | INFEASIBLE | UNBOUNDED | ABNORMAL | MODEL_INVALID | NOT_SOLVED

section \<open>Extraction of the bin edges\<close>

text \<open>
  The pairs the double loop over \<^verbatim>\<open>range(train_size)\<close> finds with
  \<^verbatim>\<open>j > i and x[i, j].solution_value() == 1\<close>, in the order of the loop.
\<close>

definition selected :: "nat \<Rightarrow> assignment \<Rightarrow> (nat \<times> nat) list" where
  "selected B x =
     concat (map (\<lambda>i. map (\<lambda>j. (i, j)) (filter (\<lambda>j. j > i \<and> x i j = 1) [0..<B])) [0..<B])"

text \<open>
  On success every selected pair appends \<^verbatim>\<open>i + 300\<close> and the loop is followed by
  \<^verbatim>\<open>final_bin_edges.append(max_edge)\<close>; otherwise the code prints
  \<^verbatim>\<open>'No solution found.'\<close> and the list stays empty.
\<close>

definition final_bin_edges :: "status \<Rightarrow> assignment \<Rightarrow> int list" where
  "final_bin_edges st x =
     (if st = OPTIMAL \<or> st = FEASIBLE
      then map (\<lambda>(i, j). int i + 300) (selected train_size x) @ [max_edge]
      else [])"

text \<open>\<^verbatim>\<open>final_num_bin = len(final_bin_edges) - 1\<close>\<close>

definition final_num_bin :: "int list \<Rightarrow> int" where
  "final_num_bin edges = int (length edges) - 1"

text \<open>
  The edge sequence as the specification words it: \<open>min_edge\<close>, followed by
  \<open>j + min_edge\<close> for each selected pair \<open>(i, j)\<close>, the pairs sorted by \<open>i\<close>.
\<close>

definition edges_reference :: "assignment \<Rightarrow> int list" where
  "edges_reference x = min_edge # map (\<lambda>(i, j). int j + min_edge) (selected train_size x)"

section \<open>Metrics\<close>

text \<open>
  scikit-learn's \<^verbatim>\<open>precision_recall_fscore_support(y_true, y_pred, beta=beta, average=None)\<close>
  as its documentation describes it: the two label sequences must have the same length and
  hold integer-valued labels; there is one entry per label that occurs in \<^verbatim>\<open>y_true\<close> or
  \<^verbatim>\<open>y_pred\<close>, in sorted order; a quotient with denominator zero is reported as 0 (with a
  warning).
\<close>

definition check_targets :: "real list \<Rightarrow> real list \<Rightarrow> bool" where
  "check_targets y_true y_pred =
     (length y_true = length y_pred \<and> (\<forall>v\<in>set (y_true @ y_pred). of_int \<lfloor>v\<rfloor> = v))"

definition unique_labels :: "real list \<Rightarrow> real list \<Rightarrow> real list" where
  "unique_labels y_true y_pred = sort (remdups (y_true @ y_pred))"

definition count_eq :: "real \<Rightarrow> real list \<Rightarrow> real" where
  "count_eq l ys = real (length (filter (\<lambda>v. v = l) ys))"

definition tp_sum :: "real \<Rightarrow> real list \<Rightarrow> real list \<Rightarrow> real" where
  "tp_sum l y_true y_pred = real (length (filter (\<lambda>(t, p). t = l \<and> p = l) (zip y_true y_pred)))"

definition precision :: "real \<Rightarrow> real list \<Rightarrow> real list \<Rightarrow> real" where
  "precision l y_true y_pred =
     (if count_eq l y_pred = 0 then 0 else tp_sum l y_true y_pred / count_eq l y_pred)"

definition recall :: "real \<Rightarrow> real list \<Rightarrow> real list \<Rightarrow> real" where
  "recall l y_true y_pred =
     (if count_eq l y_true = 0 then 0 else tp_sum l y_true y_pred / count_eq l y_true)"

definition fbeta_score :: "real \<Rightarrow> real \<Rightarrow> real list \<Rightarrow> real list \<Rightarrow> real" where
  "fbeta_score beta l y_true y_pred =
     (let p = precision l y_true y_pred; r = recall l y_true y_pred
      in if beta\<^sup>2 * p + r = 0 then 0 else (1 + beta\<^sup>2) * p * r / (beta\<^sup>2 * p + r))"

definition precision_recall_fscore_support ::
  "real \<Rightarrow> real list \<Rightarrow> real list \<Rightarrow> error + (real list \<times> real list \<times> real list \<times> real list)" where
  "precision_recall_fscore_support beta y_true y_pred =
     (if \<not> check_targets y_true y_pred then Inl ValueError
      else let ls = unique_labels y_true y_pred
           in Inr (map (\<lambda>l. precision l y_true y_pred) ls,
                   map (\<lambda>l. recall l y_true y_pred) ls,
                   map (\<lambda>l. fbeta_score beta l y_true y_pred) ls,
                   map (\<lambda>l. count_eq l y_true) ls))"

text \<open>\<^verbatim>\<open>accuracy_score(y_true, y_pred)\<close>: the fraction of equal entries.\<close>

definition accuracy_score :: "real list \<Rightarrow> real list \<Rightarrow> error + npfloat" where
  "accuracy_score y_true y_pred =
     (if \<not> check_targets y_true y_pred then Inl ValueError
      else Inr (np_div (real (length (filter (\<lambda>(t, p). t = p) (zip y_true y_pred))))
                       (real (length y_true))))"

text \<open>\<^verbatim>\<open>round(v, 4)\<close> of a numpy float: to four decimals, a tie to the even neighbour.\<close>

definition rint :: "real \<Rightarrow> int" where
  "rint r =
     (let f = \<lfloor>r\<rfloor>; d = r - of_int f
      in if d < 1 / 2 then f else if 1 / 2 < d then f + 1 else if even f then f else f + 1)"

definition round4 :: "real \<Rightarrow> real" where
  "round4 v = of_int (rint (v * 10 ^ 4)) / 10 ^ 4"

text \<open>
  \<^verbatim>\<open>precision_0_recall_1_inverse_weighted_fbeta(y_true, y_pred, beta=2.0)\<close>. The reads
  \<^verbatim>\<open>precisions[0]\<close> and \<^verbatim>\<open>recalls[1]\<close> raise \<^verbatim>\<open>IndexError\<close> out of range, and the
  unpacking \<^verbatim>\<open>ratio_0, ratio_1 = supports / sum(supports)\<close> raises \<^verbatim>\<open>ValueError\<close>
  unless there are exactly two entries.
\<close>

definition precision_0_recall_1_inverse_weighted_fbeta ::
  "real list \<Rightarrow> real list \<Rightarrow> real \<Rightarrow> error + (real \<times> real \<times> real)" where
  "precision_0_recall_1_inverse_weighted_fbeta y_true y_pred beta =
     (case precision_recall_fscore_support beta y_true y_pred of
        Inl e \<Rightarrow> Inl e
      | Inr (precisions, recalls, fbeta_scores, supports) \<Rightarrow>
          if length precisions < 1 then Inl IndexError
          else if length recalls < 2 then Inl IndexError
          else if length supports \<noteq> 2 then Inl ValueError
          else let ratio_0 = supports ! 0 / sum_list supports;
                   ratio_1 = supports ! 1 / sum_list supports
               in Inr (round4 (precisions ! 0), round4 (recalls ! 1),
                       round4 (fbeta_scores ! 0 * ratio_1 + fbeta_scores ! 1 * ratio_0)))"

text \<open>
  \<^verbatim>\<open>confusion_matrix(y_true, y_pred)\<close>: rows are true labels, columns predicted labels,
  over the labels that occur.
\<close>

definition confusion_matrix :: "real list \<Rightarrow> real list \<Rightarrow> error + nat list list" where
  "confusion_matrix y_true y_pred =
     (if \<not> check_targets y_true y_pred then Inl ValueError
      else let ls = unique_labels y_true y_pred
           in Inr (map (\<lambda>t. map (\<lambda>p. length (filter (\<lambda>(a, b). a = t \<and> b = p) (zip y_true y_pred))) ls) ls))"

section \<open>The threshold sweep on the training set\<close>

record sweep_state =
  best_train_threshold :: real
  best_train_precision_0 :: real
  best_train_recall_1 :: real
  best_train_inverse_weighted_f2 :: real
  best_y_train_pred :: "real list"
  train_acc :: npfloat

text \<open>
  \<^verbatim>\<open>best_train_threshold = best_train_precision_0 = best_train_recall_1 =
  best_train_inverse_weighted_f2 = 0\<close>, \<^verbatim>\<open>best_y_train_pred = [0] * (num_days_train - 1)\<close>,
  \<^verbatim>\<open>train_acc = 0\<close>.
\<close>

definition sweep_init :: "real list list \<Rightarrow> sweep_state" where
  "sweep_init X =
     \<lparr>best_train_threshold = 0, best_train_precision_0 = 0, best_train_recall_1 = 0,
      best_train_inverse_weighted_f2 = 0, best_y_train_pred = replicate (length X - 1) 0,
      train_acc = Fin 0\<rparr>"

text \<open>
  The prediction loop reads \<^verbatim>\<open>y[i]\<close> for every \<^verbatim>\<open>i in range(num_days - 1)\<close>, which
  raises \<^verbatim>\<open>IndexError\<close> when there are fewer labels than transitions.
\<close>

definition predictions :: "int list \<Rightarrow> real list list \<Rightarrow> real list \<Rightarrow> real \<Rightarrow> error + real list" where
  "predictions edges X y threshold =
     (if length y < length X - 1 then Inl IndexError else Inr (predict edges X y threshold))"

text \<open>What one round of the sweep computes for its threshold.\<close>

definition candidate ::
  "int list \<Rightarrow> real list list \<Rightarrow> real list \<Rightarrow> real \<Rightarrow> error + (real list \<times> real \<times> real \<times> real)" where
  "candidate edges X y threshold =
     (case predictions edges X y threshold of
        Inl e \<Rightarrow> Inl e
      | Inr y_train_pred \<Rightarrow>
          (case precision_0_recall_1_inverse_weighted_fbeta y y_train_pred 2 of
             Inl e \<Rightarrow> Inl e
           | Inr (train_precision_0, train_recall_1, train_inverse_weighted_f2) \<Rightarrow>
               Inr (y_train_pred, train_precision_0, train_recall_1, train_inverse_weighted_f2)))"

definition sweep_step ::
  "int list \<Rightarrow> real list list \<Rightarrow> real list \<Rightarrow> sweep_state \<Rightarrow> real \<Rightarrow> error + sweep_state" where
  "sweep_step edges X y s threshold =
     (case candidate edges X y threshold of
        Inl e \<Rightarrow> Inl e
      | Inr (y_train_pred, train_precision_0, train_recall_1, train_inverse_weighted_f2) \<Rightarrow>
          if train_inverse_weighted_f2 > best_train_inverse_weighted_f2 s
          then (case accuracy_score y y_train_pred of
                  Inl e \<Rightarrow> Inl e
                | Inr acc \<Rightarrow>
                    Inr \<lparr>best_train_threshold = threshold,
                         best_train_precision_0 = train_precision_0,
                         best_train_recall_1 = train_recall_1,
                         best_train_inverse_weighted_f2 = train_inverse_weighted_f2,
                         best_y_train_pred = y_train_pred,
                         train_acc = acc\<rparr>)
          else Inr s)"

fun sweep_loop ::
  "int list \<Rightarrow> real list list \<Rightarrow> real list \<Rightarrow> sweep_state \<Rightarrow> real list \<Rightarrow> error + sweep_state" where
  "sweep_loop edges X y s [] = Inr s"
| "sweep_loop edges X y s (threshold # ts) =
     (case sweep_step edges X y s threshold of
        Inl e \<Rightarrow> Inl e
      | Inr s' \<Rightarrow> sweep_loop edges X y s' ts)"

definition sweep :: "int list \<Rightarrow> real list list \<Rightarrow> real list \<Rightarrow> real list \<Rightarrow> error + sweep_state" where
  "sweep edges X y ts = sweep_loop edges X y (sweep_init X) ts"

text \<open>
  The inverse-weighted F-beta score of a candidate threshold, and what it means that
  the state of the sweep holds the values computed at a threshold.
\<close>

definition score :: "int list \<Rightarrow> real list list \<Rightarrow> real list \<Rightarrow> real \<Rightarrow> real" where
  "score edges X y threshold =
     (case candidate edges X y threshold of
        Inl e \<Rightarrow> 0
      | Inr (y_train_pred, train_precision_0, train_recall_1, train_inverse_weighted_f2) \<Rightarrow>
          train_inverse_weighted_f2)"

definition computed_at ::
  "int list \<Rightarrow> real list list \<Rightarrow> real list \<Rightarrow> real \<Rightarrow> sweep_state \<Rightarrow> bool" where
  "computed_at edges X y threshold s =
     (best_train_threshold s = threshold
      \<and> candidate edges X y threshold =
          Inr (best_y_train_pred s, best_train_precision_0 s, best_train_recall_1 s,
               best_train_inverse_weighted_f2 s)
      \<and> accuracy_score y (best_y_train_pred s) = Inr (train_acc s))"

section \<open>Evaluation of a test set\<close>

record test_result =
  objective_0 :: npfloat
  objective_1 :: npfloat
  total_objective :: npfloat
  test_acc :: npfloat
  test_precision_0 :: real
  test_recall_1 :: real
  test_inverse_weighted_f2 :: real

text \<open>
  \<^verbatim>\<open>psi_0_test\<close> collects the PSI of the transitions with \<^verbatim>\<open>y_test[i] == 0\<close>,
  \<^verbatim>\<open>psi_1_test\<close> that of all others; both are then divided by
  \<^verbatim>\<open>np.sum(1 - y_test)\<close> and \<^verbatim>\<open>np.sum(y_test)\<close>.
\<close>

definition psi_0_test :: "int list \<Rightarrow> real list list \<Rightarrow> real list \<Rightarrow> real" where
  "psi_0_test edges X y =
     sum_list (map (day_psi edges X) (filter (\<lambda>i. y ! i = 0) [0..<length X - 1]))"

definition psi_1_test :: "int list \<Rightarrow> real list list \<Rightarrow> real list \<Rightarrow> real" where
  "psi_1_test edges X y =
     sum_list (map (day_psi edges X) (filter (\<lambda>i. y ! i \<noteq> 0) [0..<length X - 1]))"

definition evaluate ::
  "int list \<Rightarrow> real \<Rightarrow> real \<Rightarrow> real list list \<Rightarrow> real list \<Rightarrow> error + test_result" where
  "evaluate edges threshold alpha X y =
     (case predictions edges X y threshold of
        Inl e \<Rightarrow> Inl e
      | Inr y_test_pred \<Rightarrow>
          let obj0 = np_div (psi_0_test edges X y) (sum_list (map (\<lambda>v. 1 - v) y));
              obj1 = np_div (psi_1_test edges X y) (sum_list y);
              total = np_sub (np_scale alpha obj1) (np_scale (1 - alpha) obj0)
          in (case accuracy_score y y_test_pred of
                Inl e \<Rightarrow> Inl e
              | Inr acc \<Rightarrow>
                  (case precision_0_recall_1_inverse_weighted_fbeta y y_test_pred 2 of
                     Inl e \<Rightarrow> Inl e
                   | Inr (p0, r1, f2) \<Rightarrow>
                       Inr \<lparr>objective_0 = obj0, objective_1 = obj1, total_objective = total,
                            test_acc = acc, test_precision_0 = p0, test_recall_1 = r1,
                            test_inverse_weighted_f2 = f2\<rparr>)))"

fun evaluate_all ::
  "int list \<Rightarrow> real \<Rightarrow> real \<Rightarrow> (real list list \<times> real list) list \<Rightarrow> error + test_result list" where
  "evaluate_all edges threshold alpha [] = Inr []"
| "evaluate_all edges threshold alpha ((X, y) # rest) =
     (case evaluate edges threshold alpha X y of
        Inl e \<Rightarrow> Inl e
      | Inr r \<Rightarrow>
          (case evaluate_all edges threshold alpha rest of
             Inl e \<Rightarrow> Inl e
           | Inr rs \<Rightarrow> Inr (r # rs)))"

section \<open>One round of \<^verbatim>\<open>solve\<close> after the solver has returned\<close>

text \<open>
  The part of the loop body of \<^verbatim>\<open>solve\<close> that follows \<^verbatim>\<open>solver.Solve()\<close>, as a
  function of the solver's status and solution values. The timings and the training
  objectives that the solver reports are not part of the model.
\<close>

record solve_result =
  num_bin :: int
  training :: sweep_state
  training_confusion :: "nat list list"
  testing :: "test_result list"

definition solve_round ::
  "real \<Rightarrow> status \<Rightarrow> assignment \<Rightarrow> real list list \<Rightarrow> real list \<Rightarrow>
   (real list list \<times> real list) list \<Rightarrow> error + solve_result" where
  "solve_round alpha st x X_train y_train tests =
     (let edges = final_bin_edges st x
      in case sweep edges X_train y_train thresholds of
           Inl e \<Rightarrow> Inl e
         | Inr s \<Rightarrow>
             (case confusion_matrix y_train (best_y_train_pred s) of
                Inl e \<Rightarrow> Inl e
              | Inr cm \<Rightarrow>
                  (case evaluate_all edges (best_train_threshold s) alpha tests of
                     Inl e \<Rightarrow> Inl e
                   | Inr rs \<Rightarrow>
                       Inr \<lparr>num_bin = final_num_bin edges, training = s,
                            training_confusion = cm, testing = rs\<rparr>)))"

section \<open>Example data\<close>

text \<open>A day whose mass is spread evenly over the 550 positions of the support.\<close>

definition flat_day :: "real list" where
  "flat_day = replicate 550 (1 / 550)"

text \<open>Days whose whole mass lies on the first and on the last position of the support.\<close>

definition left_day :: "real list" where
  "left_day = 1 # replicate 549 0"

definition right_day :: "real list" where
  "right_day = replicate 549 0 @ [1]"

section \<open>Slices and aggregated bins\<close>

lemma set_py_slice: "set (py_slice xs a b) \<subseteq> set xs"
  unfolding py_slice_def Let_def
  by (meson set_take_subset set_drop_subset subset_trans)

lemma sum_slice_nonneg: "\<forall>v\<in>set row. (0::real) \<le> v \<Longrightarrow> 0 \<le> sum_list (py_slice row a b)"
  using set_py_slice [of row a b] by (intro sum_list_nonneg) auto

lemma slice_append:
  assumes "0 \<le> a" "a \<le> b" "b \<le> c"
  shows "py_slice xs a b @ py_slice xs b c = py_slice xs a c"
proof -
  define n where "n = length xs"
  define s e f where "s = min (nat a) n" and "e = min (nat b) n" and "f = min (nat c) n"
  have le: "s \<le> e" "e \<le> f" using assms by (auto simp: s_def e_def f_def)
  have "take (e - s) (drop s xs) @ take (f - e) (drop e xs) = take (f - s) (drop s xs)"
  proof -
    have "drop e xs = drop (e - s) (drop s xs)" using le by simp
    moreover have "f - s = (e - s) + (f - e)" using le by simp
    ultimately show ?thesis by (simp only: take_add)
  qed
  then show ?thesis
    using assms by (simp add: py_slice_def clamp_index_def s_def e_def f_def n_def Let_def)
qed

lemma slice_from_0: "0 \<le> b \<Longrightarrow> py_slice xs 0 b = take (nat b) xs"
  by (cases "nat b \<le> length xs") (simp_all add: py_slice_def clamp_index_def min_def)

lemma bin_hist_zip:
  "bin_hist edges row =
     map (\<lambda>(a, b). sum_list (py_slice row (a - 300) (b - 300))) (zip edges (tl edges))"
  by (rule nth_equalityI) (simp_all add: bin_hist_def nth_tl)

lemma sum_bins_chain:
  "sorted_wrt (<) (e # es) \<Longrightarrow> 300 \<le> e \<Longrightarrow>
   sum_list (map (\<lambda>(a, b). sum_list (py_slice row (a - 300) (b - 300))) (zip (e # es) es))
     = sum_list (py_slice row (e - 300) (last (e # es) - 300))"
proof (induction es arbitrary: e)
  case Nil
  then show ?case by (simp add: py_slice_def)
next
  case (Cons f fs)
  then have "sorted_wrt (<) (f # fs)" "300 \<le> f" "e < f" by auto
  moreover from this have "f \<le> last (f # fs)"
    by (metis last_in_set list.distinct(1) order_less_imp_le order_refl set_ConsD sorted_wrt.simps(2))
  ultimately show ?case
    using Cons.IH [of f] Cons.prems
      slice_append [of "e - 300" "f - 300" "last (f # fs) - 300" row, symmetric]
    by simp
qed

text \<open>
  C7. For every histogram row and every edge sequence that increases strictly from
  \<open>min_edge\<close> to \<open>max_edge\<close>, the aggregated bin masses add up to the mass of the row over
  the positions of the support, which are the first \<open>max_edge - min_edge\<close> entries of the
  row (in exact arithmetic).
\<close>

theorem bin_mass_preserved:
  assumes "sorted_wrt (<) edges" "edges \<noteq> []" "hd edges = min_edge" "last edges = max_edge"
  shows "sum_list (bin_hist edges row) = sum_list (take (nat (max_edge - min_edge)) row)"
proof -
  from assms(2) obtain e es where ed: "edges = e # es" by (cases edges) auto
  with assms show ?thesis
    using sum_bins_chain [of e es row] slice_from_0 [of 550 row]
    by (simp add: bin_hist_zip min_edge_def max_edge_def)
qed

theorem bin_mass_preserved_witness:
  "sorted_wrt (<) [300, 400, 850 :: int] \<and> [300, 400, 850] \<noteq> [] \<and> hd [300, 400, 850] = min_edge
   \<and> last [300, 400, 850] = max_edge
   \<and> sum_list (bin_hist [300, 400, 850] [1 / 4, 1 / 4, 1 / 2]) = 1"
  using bin_mass_preserved [of "[300, 400, 850]" "[1 / 4, 1 / 4, 1 / 2]"]
  by (simp add: min_edge_def max_edge_def)

section \<open>Sign of the PSI values\<close>

lemma psi_term_nonneg:
  assumes "0 < eps" "0 \<le> p" "0 \<le> q"
  shows "0 \<le> psi_term eps p q"
proof (cases "q \<le> p")
  case True
  with assms have "1 \<le> (p + eps) / (q + eps)" by simp
  then have "0 \<le> ln ((p + eps) / (q + eps))" by simp
  with True show ?thesis by (simp add: psi_term_def)
next
  case False
  with assms have "(p + eps) / (q + eps) \<le> 1" "0 < (p + eps) / (q + eps)" by simp_all
  then have "ln ((p + eps) / (q + eps)) \<le> 0" by simp
  with False show ?thesis by (simp add: psi_term_def mult_nonpos_nonpos)
qed

lemma percent_nonneg: "\<forall>v\<in>set row. 0 \<le> v \<Longrightarrow> 0 \<le> percent row j k"
  by (simp add: percent_def sum_slice_nonneg)

lemma bin_hist_nonneg: "\<forall>v\<in>set row. 0 \<le> v \<Longrightarrow> \<forall>b\<in>set (bin_hist edges row). 0 \<le> b"
  by (auto simp: bin_hist_def sum_slice_nonneg)

lemma epsilon_pos: "0 < epsilon"
  by (simp add: epsilon_def)

lemma day_psi_nonneg:
  assumes "\<forall>v\<in>set (X ! i). 0 \<le> v" "\<forall>v\<in>set (X ! (i + 1)). 0 \<le> v"
  shows "0 \<le> day_psi edges X i"
  unfolding day_psi_def
proof (rule sum_list_nonneg)
  fix t
  assume "t \<in> set (map2 (psi_term epsilon) (bin_hist edges (X ! i)) (bin_hist edges (X ! (i + 1))))"
  then obtain p q where t: "t = psi_term epsilon p q"
    and pq: "(p, q) \<in> set (zip (bin_hist edges (X ! i)) (bin_hist edges (X ! (i + 1))))"
    by auto
  from pq have "p \<in> set (bin_hist edges (X ! i))" "q \<in> set (bin_hist edges (X ! (i + 1)))"
    by (auto dest: set_zip_leftD set_zip_rightD)
  with assms bin_hist_nonneg have "0 \<le> p" "0 \<le> q" by blast+
  with t show "0 \<le> t" by (simp add: psi_term_nonneg epsilon_pos)
qed

text \<open>
  C10. For values \<open>a, b \<ge> 0\<close> and a smoothing constant \<open>eps > 0\<close> the PSI term
  \<open>(a - b) * ln ((a + eps) / (b + eps))\<close> is non-negative; hence, for histograms without
  negative entries, every entry of the PSI matrix of a transition and the aggregated-bin
  PSI of a transition are non-negative.
\<close>

theorem psi_nonneg:
  assumes "0 < eps" "0 \<le> a" "0 \<le> b"
    and "\<forall>row\<in>set X. \<forall>v\<in>set row. 0 \<le> v" "i + 1 < length X"
  shows "0 \<le> psi_term eps a b \<and> 0 \<le> psi_train X i j k \<and> 0 \<le> day_psi edges X i"
proof -
  from assms(5) have "X ! i \<in> set X" "X ! (i + 1) \<in> set X"
    by (simp_all del: One_nat_def)
  with assms(4) have r: "\<forall>v\<in>set (X ! i). 0 \<le> v" "\<forall>v\<in>set (X ! (i + 1)). 0 \<le> v"
    by blast+
  show ?thesis
    using assms(1-3) r
    by (simp add: psi_term_nonneg psi_train_def percent_nonneg epsilon_pos day_psi_nonneg)
qed

theorem psi_nonneg_witness:
  "(0::real) < 1 / 100 \<and> (0::real) \<le> 1 \<and> (0::real) \<le> 0
   \<and> list_all (list_all (\<lambda>v. 0 \<le> v)) [[1 / 2, 1 / 2], [1, 0 :: real]]
   \<and> 0 + 1 < length [[1 / 2, 1 / 2], [1, 0 :: real]]
   \<and> 0 \<le> psi_term (1 / 100) 1 0
   \<and> 0 \<le> psi_train [[1 / 2, 1 / 2], [1, 0]] 0 0 1
   \<and> 0 \<le> day_psi [300, 301, 850] [[1 / 2, 1 / 2], [1, 0]] 0"
  using psi_nonneg [of "1 / 100" 1 0 "[[1 / 2, 1 / 2], [1, 0]]" 0 0 1 "[300, 301, 850]"]
  by simp

section \<open>The classification rule\<close>

text \<open>
  On a finite PSI value and a true label in \<open>{0, 1}\<close> the flip through the true label
  cancels out: the rule predicts 1 if \<open>psi \<ge> threshold\<close> and 0 otherwise.
\<close>

lemma classify_finite:
  "y = 0 \<or> y = 1 \<Longrightarrow> classify y (Fin v) t = pure_rule (Fin v) t"
  by (auto simp: classify_def pure_rule_def np_lt_def np_ge_def)

lemma classify_nan: "classify y NaN t = 1 - y" "pure_rule NaN t = 0"
  by (simp_all add: classify_def pure_rule_def np_lt_def np_ge_def)

text \<open>
  C2. The prediction of the baseline rule is a function of the true label and not of the
  PSI value and the threshold alone: some pair of runs with the same PSI value and the
  same threshold and different true labels in \<open>{0, 1}\<close> is predicted differently, and
  differently from the rule that predicts 1 if and only if \<open>psi \<ge> threshold\<close>. The
  pair is found at the PSI value NaN, where both comparisons of the rule are false and
  the prediction is \<open>1 - y\<close>.
\<close>

theorem label_leak:
  "\<exists>y1 y2 psi t. (y1 = 0 \<or> y1 = 1) \<and> (y2 = 0 \<or> y2 = 1) \<and> y1 \<noteq> y2
      \<and> classify y1 psi t \<noteq> classify y2 psi t
      \<and> classify y1 psi t \<noteq> pure_rule psi t"
proof -
  have "classify 0 NaN (1 / 10) \<noteq> classify 1 NaN (1 / 10)"
    "classify 0 NaN (1 / 10) \<noteq> pure_rule NaN (1 / 10)"
    by (simp_all add: classify_nan)
  then show ?thesis by (intro exI [of _ 0] exI [of _ 1] exI [of _ NaN] exI [of _ "1 / 10"]) simp
qed

section \<open>The selected pairs form one path\<close>

lemma sum_binary_card:
  fixes f :: "'a \<Rightarrow> real"
  assumes "finite A" "\<forall>a\<in>A. f a = 0 \<or> f a = 1"
  shows "sum f A = real (card {a\<in>A. f a = 1})"
proof -
  have "sum f A = (\<Sum>a\<in>A. if f a = 1 then 1 else 0)"
    using assms(2) by (intro sum.cong) auto
  also have "\<dots> = real (card {a\<in>A. f a = 1})"
    using assms(1) by (simp add: sum.If_cases Int_def)
  finally show ?thesis .
qed

lemma inbound_card:
  assumes "is_binary B x" "p < B"
  shows "inbound x p = real (card {r. edge B x r p})"
proof -
  have "inbound x p = (\<Sum>r\<in>{0..<p}. x r p)"
    by (simp add: inbound_def xvar_def)
  also have "\<dots> = real (card {r\<in>{0..<p}. x r p = 1})"
    using assms by (intro sum_binary_card) (auto simp: is_binary_def)
  also have "{r\<in>{0..<p}. x r p = 1} = {r. edge B x r p}"
    using assms(2) by (auto simp: edge_def)
  finally show ?thesis .
qed

lemma outbound_card:
  assumes "is_binary B x" "p < B"
  shows "outbound B x p = real (card {c. edge B x p c})"
proof -
  have "outbound B x p = (\<Sum>c\<in>{p + 1..<B}. x p c)"
    by (simp add: outbound_def xvar_def)
  also have "\<dots> = real (card {c\<in>{p + 1..<B}. x p c = 1})"
    using assms by (intro sum_binary_card) (auto simp: is_binary_def)
  also have "{c\<in>{p + 1..<B}. x p c = 1} = {c. edge B x p c}"
    by (auto simp: edge_def)
  finally show ?thesis .
qed

lemma finite_in: "finite {r. edge B x r p}"
  by (rule finite_subset [of _ "{0..<p}"]) (auto simp: edge_def)

lemma finite_out: "finite {c. edge B x p c}"
  by (rule finite_subset [of _ "{0..<B}"]) (auto simp: edge_def)


text \<open>What the constraints say about the selected pairs.\<close>

lemma out_unique:
  assumes "is_binary B x" "flow_constraints B x" "in_and_out B x"
    and "edge B x p j" "edge B x p j'"
  shows "j = j'"
proof -
  from assms(4) have pB: "p < B" "p < B - 1" by (auto simp: edge_def)
  have "outbound B x p \<le> 1"
  proof (cases "p = 0")
    case True
    with assms(3) show ?thesis by (simp add: in_and_out_def outbound_def)
  next
    case False
    with pB assms(2) show ?thesis by (simp add: flow_constraints_def)
  qed
  then have "card {c. edge B x p c} \<le> 1"
    using outbound_card [OF assms(1) pB(1)] by simp
  then show ?thesis
    using assms(4,5) finite_out [of B x p] by (auto simp: card_le_Suc0_iff_eq)
qed

lemma out_of_0:
  assumes "is_binary B x" "in_and_out B x"
  shows "\<exists>j. edge B x 0 j"
proof -
  from assms(2) have s: "outbound B x 0 = 1" by (simp add: in_and_out_def outbound_def)
  have "0 < B"
  proof (rule ccontr)
    assume "\<not> 0 < B"
    with s show False by (simp add: outbound_def)
  qed
  with s have "card {c. edge B x 0 c} = 1"
    using outbound_card [OF assms(1), of 0] by simp
  then have "{c. edge B x 0 c} \<noteq> {}" by (metis card.empty zero_neq_one)
  then show ?thesis by blast
qed

lemma in_iff_out:
  assumes "is_binary B x" "flow_constraints B x" "1 \<le> p" "p < B - 1"
  shows "(\<exists>i. edge B x i p) \<longleftrightarrow> (\<exists>j. edge B x p j)"
proof -
  from assms have "inbound x p = outbound B x p" by (simp add: flow_constraints_def)
  then have c: "card {r. edge B x r p} = card {c. edge B x p c}"
    using inbound_card [OF assms(1), of p] outbound_card [OF assms(1), of p] assms(4) by simp
  have "(\<exists>i. edge B x i p) \<longleftrightarrow> card {r. edge B x r p} \<noteq> 0"
    using finite_in [of B x p] by auto
  also have "\<dots> \<longleftrightarrow> card {c. edge B x p c} \<noteq> 0" using c by simp
  also have "\<dots> \<longleftrightarrow> (\<exists>j. edge B x p j)"
    using finite_out [of B x p] by auto
  finally show ?thesis .
qed

text \<open>Following the selected pairs from a position leads to the last position.\<close>

lemma walk_to_end:
  assumes "is_binary B x" "flow_constraints B x"
  shows "edge B x p j \<Longrightarrow>
         \<exists>qs. hd (p # qs) = p \<and> last (p # qs) = B - 1 \<and> successively (edge B x) (p # qs)"
proof (induction "B - p" arbitrary: p j rule: less_induct)
  case less
  from less.prems have pj: "p < j" "j < B" by (auto simp: edge_def)
  show ?case
  proof (cases "j = B - 1")
    case True
    with less.prems have "successively (edge B x) (p # [j])" by simp
    with True show ?thesis by (intro exI [of _ "[j]"]) simp
  next
    case False
    with pj have "1 \<le> j" "j < B - 1" by auto
    with in_iff_out [OF assms, of j] less.prems obtain j' where j': "edge B x j j'" by auto
    from pj have "B - j < B - p" by auto
    from less.hyps [OF this j'] obtain qs where
      qs: "last (j # qs) = B - 1" "successively (edge B x) (j # qs)" by auto
    with less.prems have "successively (edge B x) (p # j # qs)" by simp
    with qs(1) show ?thesis by (intro exI [of _ "j # qs"]) simp
  qed
qed

lemma zip_tl_edges:
  assumes "successively P ps" "(a, b) \<in> set (zip ps (tl ps))"
  shows "P a b"
proof -
  from assms(2) obtain k where k: "k < length (zip ps (tl ps))" "zip ps (tl ps) ! k = (a, b)"
    by (auto simp: in_set_conv_nth)
  then have "Suc k < length ps" "a = ps ! k" "b = ps ! Suc k"
    by (auto simp: nth_tl)
  with assms(1) show ?thesis by (simp add: successively_nth)
qed

lemma next_on_path:
  assumes "q \<in> set ps" "q \<noteq> last ps"
  shows "\<exists>s. (q, s) \<in> set (zip ps (tl ps))"
proof -
  from assms(1) obtain k where k: "k < length ps" "ps ! k = q" by (auto simp: in_set_conv_nth)
  with assms(2) have "k \<noteq> length ps - 1"
    by (cases ps rule: rev_cases) (auto simp: nth_append)
  with k have sk: "Suc k < length ps" by auto
  then have "zip ps (tl ps) ! k = (q, ps ! Suc k)" using k by (simp add: nth_tl)
  moreover from sk have "k < length (zip ps (tl ps))" by simp
  ultimately show ?thesis by (metis nth_mem)
qed

lemma source_on_path:
  assumes "is_binary B x" "flow_constraints B x" "in_and_out B x"
    and "successively (edge B x) ps" "ps \<noteq> []" "hd ps = 0" "last ps = B - 1"
  shows "edge B x i j \<Longrightarrow> i \<in> set ps"
proof (induction i arbitrary: j rule: less_induct)
  case (less i)
  show ?case
  proof (cases "i = 0")
    case True
    with assms(5,6) show ?thesis by (metis hd_in_set)
  next
    case False
    from less.prems have ij: "i < j" "j < B" by (auto simp: edge_def)
    with False have "1 \<le> i" "i < B - 1" by auto
    with in_iff_out [OF assms(1,2), of i] less.prems obtain i' where i': "edge B x i' i" by auto
    then have lt: "i' < i" by (simp add: edge_def)
    from less.IH [OF lt i'] have on: "i' \<in> set ps" .
    from lt ij assms(7) have "i' \<noteq> last ps" by auto
    from next_on_path [OF on this] obtain s where s: "(i', s) \<in> set (zip ps (tl ps))" ..
    with assms(4) have "edge B x i' s" by (rule zip_tl_edges)
    from out_unique [OF assms(1-3) this i'] have "s = i" .
    with s have "i \<in> set (tl ps)" by (simp add: set_zip_rightD)
    then show ?thesis by (cases ps) simp_all
  qed
qed

lemma edges_on_path:
  assumes "is_binary B x" "flow_constraints B x" "in_and_out B x"
    and "successively (edge B x) ps" "ps \<noteq> []" "hd ps = 0" "last ps = B - 1"
  shows "set (zip ps (tl ps)) = {(i, j). edge B x i j}"
proof (intro set_eqI iffI)
  fix e assume e: "e \<in> set (zip ps (tl ps))"
  obtain a b where ab: "e = (a, b)" by (cases e)
  with e have "(a, b) \<in> set (zip ps (tl ps))" by simp
  with assms(4) have "edge B x a b" by (rule zip_tl_edges)
  with ab show "e \<in> {(i, j). edge B x i j}" by simp
next
  fix e assume "e \<in> {(i, j). edge B x i j}"
  then obtain i j where e: "e = (i, j)" "edge B x i j" by auto
  from source_on_path [OF assms e(2)] have on: "i \<in> set ps" .
  from e(2) assms(7) have "i \<noteq> last ps" by (auto simp: edge_def)
  from next_on_path [OF on this] obtain s where s: "(i, s) \<in> set (zip ps (tl ps))" ..
  with assms(4) have "edge B x i s" by (rule zip_tl_edges)
  from out_unique [OF assms(1-3) this e(2)] have "s = j" .
  with s e(1) show "e \<in> set (zip ps (tl ps))" by simp
qed

lemma successively_edge_sorted: "successively (edge B x) ps \<Longrightarrow> sorted_wrt (<) ps"
proof -
  assume "successively (edge B x) ps"
  then have "successively (<) ps"
    by (rule successively_mono) (auto simp: edge_def)
  then show ?thesis by (simp add: successively_conv_sorted_wrt)
qed

lemma path_exists:
  assumes "is_binary B x" "flow_constraints B x" "in_and_out B x"
  shows "\<exists>ps. is_path B x ps"
proof -
  from out_of_0 [OF assms(1,3)] obtain j where "edge B x 0 j" ..
  from walk_to_end [OF assms(1,2) this] obtain qs where
    qs: "last (0 # qs) = B - 1" "successively (edge B x) (0 # qs)" by auto
  have "is_path B x (0 # qs)"
    unfolding is_path_def
    using edges_on_path [OF assms qs(2)] qs successively_edge_sorted [OF qs(2)]
    by simp
  then show ?thesis ..
qed

text \<open>
  C4. For every binary assignment to the variables \<open>x[i][j]\<close> (\<open>0 \<le> i < j < B\<close>) that
  satisfies the flow constraints at the interior positions and the two boundary
  constraints, the selected pairs are exactly the steps of a single path from position 0 to
  position \<open>B - 1\<close> through increasing positions: a partition of the support into
  contiguous, non-overlapping bins.
\<close>

theorem flow_gives_single_path:
  assumes "is_binary B x" "flow_constraints B x" "in_and_out B x"
  shows "\<exists>ps. ps \<noteq> [] \<and> hd ps = 0 \<and> last ps = B - 1 \<and> sorted_wrt (<) ps
           \<and> set (zip ps (tl ps)) = {(i, j). i < j \<and> j < B \<and> x i j = 1}"
  using path_exists [OF assms] by (simp add: is_path_def edge_def)

section \<open>The order of the selected pairs\<close>

lemma set_selected: "set (selected B x) = {(i, j). edge B x i j}"
proof (intro set_eqI iffI)
  fix e assume "e \<in> set (selected B x)"
  then show "e \<in> {(i, j). edge B x i j}" by (auto simp: selected_def edge_def)
next
  fix e assume "e \<in> {(i, j). edge B x i j}"
  then obtain i j where e: "e = (i, j)" "i < j" "j < B" "x i j = 1" by (auto simp: edge_def)
  then have "i \<in> set [0..<B]" "(i, j) \<in> set (map (Pair i) (filter (\<lambda>j. j > i \<and> x i j = 1) [0..<B]))"
    by auto
  with e(1) show "e \<in> set (selected B x)" unfolding selected_def set_concat by (auto simp: image_iff)
qed

lemma map2_left: "map2 (\<lambda>i j. f i) xs ys = map f (take (length ys) xs)"
  by (induction xs ys rule: list_induct2') auto

lemma map2_right: "map2 (\<lambda>i j. g j) xs ys = map g (take (length xs) ys)"
  by (induction xs ys rule: list_induct2') auto

lemma sorted_row: "sorted_wrt (<) (map (Pair (i::nat)) (filter P [0..<B]))"
proof -
  have "sorted_wrt (<) (filter P [0..<B])"
    by (rule sorted_wrt_filter) simp
  then show ?thesis by (simp add: sorted_wrt_map)
qed

lemma sorted_rows:
  "sorted_wrt (<) (concat (map (\<lambda>i. map (Pair i) (filter (P i) [0..<B])) [0..<n]))"
proof (induction n)
  case 0
  show ?case by simp
next
  case (Suc n)
  then show ?case by (auto simp: sorted_wrt_append sorted_row)
qed

lemma sorted_selected: "sorted_wrt (<) (selected B x)"
  unfolding selected_def by (rule sorted_rows)

lemma selected_unique:
  assumes "sorted_wrt (<) es" "set es = {(i, j). edge B x i j}"
  shows "selected B x = es"
  using assms sorted_selected [of B x] set_selected [of B x]
  by (intro strict_sorted_equal) simp_all

lemma sorted_zip_tl:
  assumes "sorted_wrt (<) (ps :: nat list)"
  shows "sorted_wrt (<) (zip ps (tl ps))"
proof -
  have "map fst (zip ps (tl ps)) = butlast ps"
    using map2_left [of "\<lambda>i. i" ps "tl ps"] by (simp add: butlast_conv_take case_prod_unfold)
  moreover have "sorted_wrt (<) (butlast ps)"
    using assms by (simp add: butlast_conv_take sorted_wrt_take)
  ultimately have "sorted_wrt (\<lambda>a b. fst a < fst b) (zip ps (tl ps))"
    by (metis sorted_wrt_map)
  then show ?thesis
    by (rule sorted_wrt_mono_rel [rotated]) (auto simp: less_prod_def)
qed

lemma selected_path: "is_path B x ps \<Longrightarrow> selected B x = zip ps (tl ps)"
  by (rule selected_unique) (simp_all add: is_path_def sorted_zip_tl)

lemma num_selected_card:
  assumes "is_binary B x"
  shows "num_selected B x = real (card {(i, j). edge B x i j})"
proof -
  have "num_selected B x = (\<Sum>e\<in>{0..<B} \<times> {0..<B}. xvar x (fst e) (snd e))"
    by (simp add: num_selected_def sum.cartesian_product case_prod_unfold)
  also have "\<dots> = real (card {e\<in>{0..<B} \<times> {0..<B}. xvar x (fst e) (snd e) = 1})"
    using assms by (intro sum_binary_card) (auto simp: is_binary_def xvar_def)
  also have "{e\<in>{0..<B} \<times> {0..<B}. xvar x (fst e) (snd e) = 1} = {(i, j). edge B x i j}"
    by (auto simp: xvar_def edge_def)
  finally show ?thesis .
qed

lemma num_selected_length:
  assumes "is_binary B x"
  shows "num_selected B x = real (length (selected B x))"
proof -
  have "distinct (selected B x)"
    using sorted_selected [of B x] by (simp add: strict_sorted_iff)
  then have "length (selected B x) = card {(i, j). edge B x i j}"
    using set_selected [of B x] by (metis distinct_card)
  with num_selected_card [OF assms] show ?thesis by simp
qed

section \<open>The extracted edges\<close>

lemma edges_of_path:
  assumes "is_path train_size x ps" "st = OPTIMAL \<or> st = FEASIBLE"
  shows "final_bin_edges st x = map (\<lambda>i. int i + 300) ps"
proof -
  have ps: "ps \<noteq> []" "last ps = 550" using assms(1)
    by (simp_all add: is_path_def train_size_def max_edge_def min_edge_def)
  have "map (\<lambda>(i, j). int i + 300) (zip ps (tl ps)) = map (\<lambda>i. int i + 300) (butlast ps)"
    by (simp add: butlast_conv_take map2_left)
  then have "final_bin_edges st x = map (\<lambda>i. int i + 300) (butlast ps @ [last ps])"
    using assms(2) selected_path [OF assms(1)] ps(2)
    by (simp add: final_bin_edges_def max_edge_def)
  with ps(1) show ?thesis by simp
qed

lemma reference_of_path:
  assumes "is_path train_size x ps"
  shows "edges_reference x = map (\<lambda>i. int i + 300) ps"
proof -
  have ps: "ps \<noteq> []" "hd ps = 0" using assms(1) by (simp_all add: is_path_def)
  have "map (\<lambda>(i, j). int j + 300) (zip ps (tl ps)) = map (\<lambda>i. int i + 300) (tl ps)"
    by (simp add: map2_right)
  then have "edges_reference x = map (\<lambda>i. int i + 300) (hd ps # tl ps)"
    using selected_path [OF assms] ps(2) by (simp add: edges_reference_def min_edge_def)
  with ps(1) show ?thesis by simp
qed


lemma feasible_path:
  assumes "feasible x"
  shows "\<exists>ps. is_path train_size x ps"
  using assms by (intro path_exists) (simp_all add: feasible_def)

text \<open>
  C5. For every successful solve (status \<open>OPTIMAL\<close> or \<open>FEASIBLE\<close> with a feasible
  binary solution) the extracted edge sequence is strictly increasing, starts with
  \<open>min_edge\<close> (300), ends with \<open>max_edge\<close> (850), and its length minus one lies between
  \<open>min_num_bins\<close> (5) and \<open>max_num_bins\<close> (25).
\<close>

theorem edges_of_successful_solve:
  assumes "st = OPTIMAL \<or> st = FEASIBLE" "feasible x"
  shows "sorted_wrt (<) (final_bin_edges st x)
         \<and> hd (final_bin_edges st x) = min_edge
         \<and> last (final_bin_edges st x) = max_edge
         \<and> min_num_bins \<le> int (length (final_bin_edges st x)) - 1
         \<and> int (length (final_bin_edges st x)) - 1 \<le> max_num_bins"
proof -
  from feasible_path [OF assms(2)] obtain ps where ps: "is_path train_size x ps" ..
  have e: "final_bin_edges st x = map (\<lambda>i. int i + 300) ps"
    using ps assms(1) by (rule edges_of_path)
  from ps have p: "ps \<noteq> []" "hd ps = 0" "last ps = 550" "sorted_wrt (<) ps"
    by (simp_all add: is_path_def train_size_def max_edge_def min_edge_def)
  have "sorted_wrt (<) (map (\<lambda>i. int i + 300) ps)"
    using p(4) by (simp add: sorted_wrt_map)
  moreover have "hd (map (\<lambda>i. int i + 300) ps) = min_edge"
    using p(1,2) by (simp add: hd_map min_edge_def)
  moreover have "last (map (\<lambda>i. int i + 300) ps) = max_edge"
    using p(1,3) by (simp add: last_map max_edge_def)
  moreover have "real (length ps - 1) = num_selected train_size x"
  proof -
    have "length (selected train_size x) = length ps - 1"
      using selected_path [OF ps] by simp
    moreover have "is_binary train_size x" using assms(2) by (simp add: feasible_def)
    ultimately show ?thesis by (simp add: num_selected_length)
  qed
  then have "real_of_int min_num_bins \<le> real (length ps - 1)"
    "real (length ps - 1) \<le> real_of_int max_num_bins"
    using assms(2) by (simp_all add: feasible_def cardinality_def)
  then have "min_num_bins \<le> int (length ps) - 1 \<and> int (length ps) - 1 \<le> max_num_bins"
    using p(1) by (cases ps) (simp_all add: min_num_bins_def max_num_bins_def)
  ultimately show ?thesis by (simp add: e)
qed

text \<open>
  C6. For every feasible binary solution the edge sequence that the extractor builds
  (\<open>i + min_edge\<close> for each selected pair in ascending order of \<open>i\<close>, then \<open>max_edge\<close>
  appended unconditionally) equals the reference sequence \<open>min_edge\<close> followed by
  \<open>j + min_edge\<close> for each selected pair in that order, and the appended \<open>max_edge\<close> is
  not already in the sequence: no edge occurs twice.
\<close>

theorem extractor_refines_reference:
  assumes "st = OPTIMAL \<or> st = FEASIBLE" "feasible x"
  shows "final_bin_edges st x = edges_reference x
         \<and> max_edge \<notin> set (butlast (final_bin_edges st x))
         \<and> distinct (final_bin_edges st x)"
proof -
  from feasible_path [OF assms(2)] obtain ps where ps: "is_path train_size x ps" ..
  have e: "final_bin_edges st x = map (\<lambda>i. int i + 300) ps"
    using ps assms(1) by (rule edges_of_path)
  from ps have p: "ps \<noteq> []" "last ps = 550" "sorted_wrt (<) ps"
    by (simp_all add: is_path_def train_size_def max_edge_def min_edge_def)
  have "sorted_wrt (<) (map (\<lambda>i. int i + 300) ps)"
    using p(3) by (simp add: sorted_wrt_map)
  then have d: "distinct (map (\<lambda>i. int i + 300) ps)"
    by (simp add: strict_sorted_iff)
  have l: "last (map (\<lambda>i. int i + 300) ps) = max_edge"
    using p(1,2) by (simp add: last_map max_edge_def)
  define es where "es = map (\<lambda>i. int i + 300) ps"
  with d l p(1) have "distinct es" "last es = max_edge" "es \<noteq> []" by simp_all
  then have "distinct (butlast es @ [max_edge])" by (metis append_butlast_last_id)
  then have "max_edge \<notin> set (butlast (map (\<lambda>i. int i + 300) ps))"
    by (simp add: es_def)
  with d show ?thesis
    using reference_of_path [OF ps] by (simp add: e)
qed

section \<open>A feasible assignment\<close>

lemma train_size_551: "train_size = 551"
  by (simp add: train_size_def max_edge_def min_edge_def)

lemma example_edges:
  "{(i, j). edge 551 example_solution i j} = {(0, 1), (1, 2), (2, 3), (3, 4), (4, 550)}"
  by (auto simp: edge_def example_solution_def split: if_splits)

lemma example_in:
  assumes "p < 551"
  shows "{r. edge 551 example_solution r p} =
     (if 1 \<le> p \<and> p \<le> 4 then {p - 1} else if p = 550 then {4} else {})"
  using assms by (auto simp: edge_def example_solution_def split: if_splits)

lemma example_out:
  "{c. edge 551 example_solution p c} =
     (if p < 4 then {p + 1} else if p = 4 then {550} else {})"
  by (auto simp: edge_def example_solution_def split: if_splits)

lemma example_binary: "is_binary 551 example_solution"
  by (simp add: is_binary_def example_solution_def)

lemma example_inbound:
  "p < 551 \<Longrightarrow> inbound example_solution p = (if 1 \<le> p \<and> p \<le> 4 \<or> p = 550 then 1 else 0)"
  using inbound_card [OF example_binary, of p] example_in [of p] by simp

lemma example_outbound:
  "p < 551 \<Longrightarrow> outbound 551 example_solution p = (if p \<le> 4 then 1 else 0)"
  using outbound_card [OF example_binary, of p] example_out [of p] by simp

lemma example_feasible: "feasible example_solution"
proof -
  have "flow_constraints 551 example_solution"
    by (simp add: flow_constraints_def example_inbound example_outbound)
  moreover have "in_and_out 551 example_solution"
    using example_outbound [of 0] example_inbound [of 550]
    by (simp add: in_and_out_def inbound_def outbound_def)
  moreover have "cardinality 551 example_solution"
    by (simp add: cardinality_def num_selected_card [OF example_binary] example_edges
        min_num_bins_def max_num_bins_def)
  ultimately show ?thesis by (simp add: feasible_def example_binary train_size_551)
qed

lemma example_selected:
  "selected train_size example_solution = [(0, 1), (1, 2), (2, 3), (3, 4), (4, 550)]"
  unfolding train_size_551 by (rule selected_unique) (simp_all add: example_edges)

lemma example_final_edges:
  "st = OPTIMAL \<or> st = FEASIBLE \<Longrightarrow>
   final_bin_edges st example_solution = [300, 301, 302, 303, 304, 850]"
  by (auto simp: final_bin_edges_def example_selected max_edge_def)

theorem edges_of_successful_solve_witness:
  "feasible example_solution
   \<and> final_bin_edges OPTIMAL example_solution = [300, 301, 302, 303, 304, 850]
   \<and> sorted_wrt (<) (final_bin_edges OPTIMAL example_solution)
   \<and> hd (final_bin_edges OPTIMAL example_solution) = min_edge
   \<and> last (final_bin_edges OPTIMAL example_solution) = max_edge
   \<and> min_num_bins \<le> int (length (final_bin_edges OPTIMAL example_solution)) - 1
   \<and> int (length (final_bin_edges OPTIMAL example_solution)) - 1 \<le> max_num_bins"
  using edges_of_successful_solve [of OPTIMAL example_solution] example_feasible
    example_final_edges [of OPTIMAL]
  by simp

theorem extractor_refines_reference_witness:
  "feasible example_solution
   \<and> final_bin_edges FEASIBLE example_solution = edges_reference example_solution
   \<and> edges_reference example_solution = [300, 301, 302, 303, 304, 850]
   \<and> max_edge \<notin> set (butlast (final_bin_edges FEASIBLE example_solution))
   \<and> distinct (final_bin_edges FEASIBLE example_solution)"
  using extractor_refines_reference [of FEASIBLE example_solution] example_feasible
  by (simp add: edges_reference_def example_selected min_edge_def max_edge_def)

theorem flow_gives_single_path_witness:
  "is_binary train_size example_solution \<and> flow_constraints train_size example_solution
   \<and> in_and_out train_size example_solution
   \<and> (\<exists>ps. ps \<noteq> [] \<and> hd ps = 0 \<and> last ps = train_size - 1 \<and> sorted_wrt (<) ps
           \<and> set (zip ps (tl ps)) = {(i, j). i < j \<and> j < train_size \<and> example_solution i j = 1})"
  using flow_gives_single_path [of train_size example_solution] example_feasible
  by (simp add: feasible_def)

section \<open>Concrete runs\<close>

lemma bin_hist_no_edges: "bin_hist [] row = []"
  by (simp add: bin_hist_def)

lemma day_psi_no_edges: "day_psi [] X i = 0"
  by (simp add: day_psi_def bin_hist_no_edges)

lemma day_psi_same_day: "X ! i = X ! (i + 1) \<Longrightarrow> day_psi edges X i = 0"
proof -
  assume "X ! i = X ! (i + 1)"
  then have "day_psi edges X i =
      sum_list (map2 (psi_term epsilon) (bin_hist edges (X ! i)) (bin_hist edges (X ! i)))"
    by (simp add: day_psi_def)
  also have "\<dots> = sum_list (map (\<lambda>b. psi_term epsilon b b) (bin_hist edges (X ! i)))"
    by (simp add: zip_same_conv_map comp_def)
  also have "\<dots> = 0" by (simp add: psi_term_def)
  finally show ?thesis .
qed

lemma predict_two_days:
  "predict edges [flat_day, flat_day] [y0] t = [classify y0 (Fin 0) t]"
  by (simp add: predict_def day_psi_same_day)

lemma predict_three_days:
  "predict edges [flat_day, flat_day, flat_day] [y0, y1] t =
     [classify y0 (Fin 0) t, classify y1 (Fin 0) t]"
proof -
  have "[0..<2] = [0, 1]" by (simp add: upt_rec)
  then show ?thesis by (simp add: predict_def day_psi_same_day)
qed

lemma metric_one_class:
  "precision_0_recall_1_inverse_weighted_fbeta [0] [0] 2 = Inl IndexError"
  by (simp add: precision_0_recall_1_inverse_weighted_fbeta_def precision_recall_fscore_support_def
      check_targets_def unique_labels_def Let_def)

lemma metric_half:
  "precision_0_recall_1_inverse_weighted_fbeta [0, 1] [0, 0] 2 = Inr (1 / 2, 0, 4167 / 10000)"
  by (simp add: precision_0_recall_1_inverse_weighted_fbeta_def precision_recall_fscore_support_def
      check_targets_def unique_labels_def precision_def recall_def fbeta_score_def count_eq_def
      tp_sum_def round4_def rint_def Let_def)


section \<open>The threshold sweep\<close>

lemma sweep_step_cases:
  assumes "sweep_step edges X y s t = Inr s1"
  shows "(\<exists>c. candidate edges X y t = Inr c)
         \<and> ((s1 = s \<and> score edges X y t \<le> best_train_inverse_weighted_f2 s)
            \<or> (computed_at edges X y t s1
                \<and> best_train_inverse_weighted_f2 s < best_train_inverse_weighted_f2 s1))"
  using assms
  by (auto simp: sweep_step_def score_def computed_at_def split: sum.splits prod.splits if_splits)

lemma computed_at_score:
  "computed_at edges X y t s \<Longrightarrow> score edges X y t = best_train_inverse_weighted_f2 s"
  by (simp add: computed_at_def score_def)

lemma sweep_loop_inv:
  assumes "sweep_loop edges X y s ts = Inr s'"
  shows "best_train_inverse_weighted_f2 s \<le> best_train_inverse_weighted_f2 s'
         \<and> (\<forall>t\<in>set ts. (\<exists>c. candidate edges X y t = Inr c)
                \<and> score edges X y t \<le> best_train_inverse_weighted_f2 s')
         \<and> (s' = s \<or> (\<exists>t\<in>set ts. computed_at edges X y t s'
                \<and> best_train_inverse_weighted_f2 s < best_train_inverse_weighted_f2 s'))"
  using assms
proof (induction ts arbitrary: s)
  case Nil
  then show ?case by simp
next
  case (Cons t ts)
  from Cons.prems obtain s1 where
    st: "sweep_step edges X y s t = Inr s1" and lp: "sweep_loop edges X y s1 ts = Inr s'"
    by (auto split: sum.splits)
  note ih = Cons.IH [OF lp]
  note sc = sweep_step_cases [OF st]
  from sc have le1: "best_train_inverse_weighted_f2 s \<le> best_train_inverse_weighted_f2 s1"
    by auto
  from sc have sc1: "score edges X y t \<le> best_train_inverse_weighted_f2 s1"
    by (auto simp: computed_at_score)
  have "best_train_inverse_weighted_f2 s \<le> best_train_inverse_weighted_f2 s'"
    using le1 ih by simp
  moreover have "\<forall>u\<in>set (t # ts). (\<exists>c. candidate edges X y u = Inr c)
                \<and> score edges X y u \<le> best_train_inverse_weighted_f2 s'"
    using sc sc1 ih by auto
  moreover have "s' = s \<or> (\<exists>u\<in>set (t # ts). computed_at edges X y u s'
                \<and> best_train_inverse_weighted_f2 s < best_train_inverse_weighted_f2 s')"
  proof (cases "s' = s1")
    case True
    with sc show ?thesis by auto
  next
    case False
    with ih obtain u where "u \<in> set ts" "computed_at edges X y u s'"
      "best_train_inverse_weighted_f2 s1 < best_train_inverse_weighted_f2 s'" by auto
    with le1 show ?thesis by auto
  qed
  ultimately show ?case by blast
qed

text \<open>
  C8, amended. When the sweep returns, every candidate threshold has been scored. If some
  candidate has a positive inverse-weighted F-beta score, the retained threshold is a
  candidate whose score is the largest among the candidates, and the reported precision
  of class 0, recall of class 1, score, predictions (from which the confusion matrix is
  computed) and accuracy are the ones computed at the retained threshold. If no candidate
  has a positive score, the sweep returns its initial state: threshold 0, precision,
  recall, score and accuracy 0 and an all-zero prediction list.
\<close>

theorem sweep_retains_best:
  assumes "sweep edges X y ts = Inr s"
  shows "(\<forall>t\<in>set ts. \<exists>c. candidate edges X y t = Inr c)
         \<and> (if \<exists>t\<in>set ts. 0 < score edges X y t
            then best_train_threshold s \<in> set ts
                 \<and> (\<forall>t\<in>set ts. score edges X y t \<le> score edges X y (best_train_threshold s))
                 \<and> candidate edges X y (best_train_threshold s) =
                     Inr (best_y_train_pred s, best_train_precision_0 s, best_train_recall_1 s,
                          best_train_inverse_weighted_f2 s)
                 \<and> accuracy_score y (best_y_train_pred s) = Inr (train_acc s)
            else s = sweep_init X)"
proof -
  note inv = sweep_loop_inv [OF assms [unfolded sweep_def]]
  have z: "best_train_inverse_weighted_f2 (sweep_init X) = 0" by (simp add: sweep_init_def)
  show ?thesis
  proof (cases "\<exists>t\<in>set ts. 0 < score edges X y t")
    case True
    then obtain t where "t \<in> set ts" "0 < score edges X y t" ..
    with inv have "0 < best_train_inverse_weighted_f2 s" by fastforce
    with z have "s \<noteq> sweep_init X" by auto
    with inv obtain u where u: "u \<in> set ts" "computed_at edges X y u s" by auto
    from u(2) have b: "best_train_threshold s = u" by (simp add: computed_at_def)
    have "\<forall>t\<in>set ts. score edges X y t \<le> score edges X y u"
      using inv computed_at_score [OF u(2)] by simp
    with u b True inv show ?thesis by (simp add: computed_at_def)
  next
    case False
    then have le: "\<forall>t\<in>set ts. score edges X y t \<le> 0" by auto
    have "s = sweep_init X"
    proof (rule ccontr)
      assume "s \<noteq> sweep_init X"
      with inv obtain u where u: "u \<in> set ts" "computed_at edges X y u s"
        "best_train_inverse_weighted_f2 (sweep_init X) < best_train_inverse_weighted_f2 s"
        by auto
      with z le computed_at_score [OF u(2)] show False by auto
    qed
    with False inv show ?thesis by simp
  qed
qed


lemma accuracy_half: "accuracy_score [0, 1] [0, 0] = Inr (Fin (1 / 2))"
  by (simp add: accuracy_score_def check_targets_def np_div_def)

lemma classify_low: "classify 0 (Fin 0) (1 / 10) = 0" "classify 1 (Fin 0) (1 / 10) = 0"
  by (simp_all add: classify_def np_lt_def np_ge_def)

lemma candidate_three_days:
  "candidate edges [flat_day, flat_day, flat_day] [0, 1] (1 / 10) =
     Inr ([0, 0], 1 / 2, 0, 4167 / 10000)"
  by (simp add: candidate_def predictions_def predict_three_days classify_low metric_half)

lemma sweep_three_days:
  "sweep edges [flat_day, flat_day, flat_day] [0, 1] thresholds =
     Inr \<lparr>best_train_threshold = 1 / 10, best_train_precision_0 = 1 / 2,
          best_train_recall_1 = 0, best_train_inverse_weighted_f2 = 4167 / 10000,
          best_y_train_pred = [0, 0], train_acc = Fin (1 / 2)\<rparr>"
  by (simp add: sweep_def thresholds_def sweep_step_def candidate_three_days sweep_init_def
      accuracy_half)

theorem sweep_retains_best_witness:
  "sweep [300, 301, 302, 303, 304, 850] [flat_day, flat_day, flat_day] [0, 1] thresholds =
     Inr \<lparr>best_train_threshold = 1 / 10, best_train_precision_0 = 1 / 2,
          best_train_recall_1 = 0, best_train_inverse_weighted_f2 = 4167 / 10000,
          best_y_train_pred = [0, 0], train_acc = Fin (1 / 2)\<rparr>
   \<and> 0 < score [300, 301, 302, 303, 304, 850] [flat_day, flat_day, flat_day] [0, 1] (1 / 10)
   \<and> 1 / 10 \<in> set thresholds
   \<and> candidate [300, 301, 302, 303, 304, 850] [flat_day, flat_day, flat_day] [0, 1] (1 / 10) =
       Inr ([0, 0], 1 / 2, 0, 4167 / 10000)
   \<and> accuracy_score [0, 1] [0, 0] = Inr (Fin (1 / 2))"
proof -
  note sw = sweep_three_days [of "[300, 301, 302, 303, 304, 850]"]
  have "1 / 10 \<in> set thresholds" by (simp add: thresholds_def)
  moreover have
    "0 < score [300, 301, 302, 303, 304, 850] [flat_day, flat_day, flat_day] [0, 1] (1 / 10)"
    by (simp add: score_def candidate_three_days)
  ultimately show ?thesis
    using sweep_retains_best [OF sw] sw by (simp add: candidate_three_days accuracy_half)
qed

lemma bins_left: "bin_hist [300, 301, 302, 303, 304, 850] left_day = [1, 0, 0, 0, 0]"
proof -
  have "[0..<5] = [0, 1, 2, 3, 4]" by (simp add: upt_rec)
  then show ?thesis
    by (simp add: bin_hist_def left_day_def py_slice_def clamp_index_def sum_list_replicate)
qed

lemma bins_right: "bin_hist [300, 301, 302, 303, 304, 850] right_day = [0, 0, 0, 0, 1]"
proof -
  have "[0..<5] = [0, 1, 2, 3, 4]" by (simp add: upt_rec)
  then show ?thesis
    by (simp add: bin_hist_def right_day_def py_slice_def clamp_index_def sum_list_replicate)
qed

lemma psi_term_far: "1 \<le> psi_term epsilon 1 0"
proof -
  have "exp 1 \<le> (100000001 :: real)" using exp_le by simp
  then have "1 \<le> ln (100000001 :: real)" by (simp add: ln_ge_iff)
  then show ?thesis by (simp add: psi_term_def epsilon_def)
qed

lemma day_psi_shift:
  "1 / 10 \<le> day_psi [300, 301, 302, 303, 304, 850] [left_day, right_day, right_day] 0"
proof -
  have "0 \<le> psi_term epsilon 0 1" by (simp add: psi_term_nonneg epsilon_pos)
  moreover have "psi_term epsilon 0 0 = 0" by (simp add: psi_term_def)
  ultimately show ?thesis
    using psi_term_far by (simp add: day_psi_def bins_left bins_right)
qed

lemma predict_shift:
  "predict [300, 301, 302, 303, 304, 850] [left_day, right_day, right_day] [0, 1] (1 / 10) = [1, 0]"
proof -
  have "[0..<2] = [0, 1]" by (simp add: upt_rec)
  moreover have "day_psi [300, 301, 302, 303, 304, 850] [left_day, right_day, right_day] 1 = 0"
    by (simp add: day_psi_same_day)
  ultimately show ?thesis
    using day_psi_shift by (simp add: predict_def classify_def np_lt_def np_ge_def)
qed

lemma metric_both_wrong:
  "precision_0_recall_1_inverse_weighted_fbeta [0, 1] [1, 0] 2 = Inr (0, 0, 0)"
  by (simp add: precision_0_recall_1_inverse_weighted_fbeta_def precision_recall_fscore_support_def
      check_targets_def unique_labels_def precision_def recall_def fbeta_score_def count_eq_def
      tp_sum_def round4_def rint_def Let_def)

text \<open>
  C8 as stated fails on a training set of three days, the mass on the first position on
  day 0 and on the last position on days 1 and 2, the transitions labelled 0 and 1, with
  the edges 300, 301, 302, 303, 304, 850 (every feasible edge sequence separates the first
  from the last position, so all of them have the same objective value). The only
  candidate 0.1 predicts both transitions wrongly, its score is 0, and the sweep retains
  the initial threshold 0, which is not a candidate.
\<close>

theorem sweep_keeps_default_counterexample:
  "thresholds \<noteq> []
   \<and> sweep [300, 301, 302, 303, 304, 850] [left_day, right_day, right_day] [0, 1] thresholds =
       Inr (sweep_init [left_day, right_day, right_day])
   \<and> best_train_threshold (sweep_init [left_day, right_day, right_day]) = 0
   \<and> 0 \<notin> set thresholds"
  by (simp add: sweep_def thresholds_def sweep_step_def candidate_def predictions_def
      predict_shift metric_both_wrong sweep_init_def)

section \<open>Evaluation of a test set without drift\<close>

text \<open>
  C9 at a test set of two equal days whose only transition is labelled 0, with the edges
  300, 301, 302, 303, 304, 850 and the threshold 0.1: the normalised PSI sum of the
  missing class 1 is computed as NaN, but the only prediction is 0, the metrics then have
  a single class, and the read \<^verbatim>\<open>recalls[1]\<close> raises \<^verbatim>\<open>IndexError\<close>: the evaluation
  returns no record.
\<close>

theorem evaluation_stops_on_one_class:
  "np_div (psi_1_test [300, 301, 302, 303, 304, 850] [flat_day, flat_day] [0]) (sum_list [0]) = NaN
   \<and> evaluate [300, 301, 302, 303, 304, 850] (1 / 10) (1 / 2) [flat_day, flat_day] [0] =
       Inl IndexError"
  by (simp add: evaluate_def predictions_def predict_two_days classify_low accuracy_score_def
      check_targets_def metric_one_class Let_def psi_1_test_def np_div_def)

section \<open>The aggregation of the PSI matrices by class\<close>

lemma no_drift_mask:
  assumes "\<forall>v\<in>set y. v = (0::real)"
  shows "filter (\<lambda>i. y ! i \<noteq> 0) [0..<length y] = []" "sum_list y = 0"
proof -
  show "filter (\<lambda>i. y ! i \<noteq> 0) [0..<length y] = []"
    using assms by (simp add: filter_empty_conv)
  show "sum_list y = 0"
    using assms by (induction y) simp_all
qed

lemma no_stable_mask:
  assumes "\<forall>v\<in>set y. v = (1::real)"
  shows "filter (\<lambda>i. 1 - y ! i \<noteq> 0) [0..<length y] = []" "sum_list (map (\<lambda>v. 1 - v) y) = 0"
proof -
  show "filter (\<lambda>i. 1 - y ! i \<noteq> 0) [0..<length y] = []"
    using assms by (simp add: filter_empty_conv)
  show "sum_list (map (\<lambda>v. 1 - v) y) = 0"
    using assms by (induction y) simp_all
qed

text \<open>
  C3, amended. For every training set with one label per transition the aggregation by
  class raises nothing and returns both matrices; when no transition is labelled 1 every
  entry of \<^verbatim>\<open>psi_1_train\<close> is NaN (the quotient 0 / 0), and when no transition is
  labelled 0 every entry of \<^verbatim>\<open>psi_0_train\<close> is NaN.
\<close>

theorem aggregation_never_fails:
  assumes "length y = length X - 1"
  shows "psi_aggregate X y = Inr (psi_0_train X y, psi_1_train X y)
         \<and> ((\<forall>v\<in>set y. v = 0) \<longrightarrow> (\<forall>j k. psi_1_train X y j k = NaN))
         \<and> ((\<forall>v\<in>set y. v = 1) \<longrightarrow> (\<forall>j k. psi_0_train X y j k = NaN))"
  using assms
  by (simp add: psi_aggregate_def psi_0_train_def psi_1_train_def no_drift_mask no_stable_mask
      np_div_def)

theorem aggregation_never_fails_witness:
  "length [0 :: real] = length [flat_day, flat_day] - 1
   \<and> psi_aggregate [flat_day, flat_day] [0] =
       Inr (psi_0_train [flat_day, flat_day] [0], psi_1_train [flat_day, flat_day] [0])
   \<and> psi_1_train [flat_day, flat_day] [0] 0 1 = NaN
   \<and> psi_0_train [flat_day, flat_day] [0] 0 1 = Fin 0"
proof -
  have "psi_train [flat_day, flat_day] 0 0 1 = 0"
    by (simp add: psi_train_def psi_term_def)
  then have "psi_0_train [flat_day, flat_day] [0] 0 1 = Fin 0"
    by (simp add: psi_0_train_def np_div_def)
  then show ?thesis
    using aggregation_never_fails [of "[0]" "[flat_day, flat_day]"] by simp
qed

text \<open>
  C3 as stated fails on a training set of two equal days whose only transition is labelled
  0: the aggregation returns its two matrices and the entries of \<^verbatim>\<open>psi_1_train\<close> are
  NaN.
\<close>

theorem no_degenerate_class_error_counterexample:
  "\<not> isl (psi_aggregate [flat_day, flat_day] [0])
   \<and> snd (projr (psi_aggregate [flat_day, flat_day] [0])) 0 1 = NaN"
  by (simp add: psi_aggregate_def psi_1_train_def np_div_def)


section \<open>A solve whose solver fails\<close>

lemma final_bin_edges_failed: "st \<noteq> OPTIMAL \<Longrightarrow> st \<noteq> FEASIBLE \<Longrightarrow> final_bin_edges st x = []"
  by (simp add: final_bin_edges_def)

text \<open>
  C1, amended. For every solve in which the solver returns a status other than
  \<open>OPTIMAL\<close> or \<open>FEASIBLE\<close> the edge list stays empty and the solve goes on with it:
  every aggregated histogram is empty, every aggregated-bin PSI is 0, and the round
  returns what the threshold sweep and the evaluation compute from the empty edge list,
  with the number of bins reported as -1. The status itself produces no error.
\<close>

theorem failed_solve_continues:
  assumes "st \<noteq> OPTIMAL" "st \<noteq> FEASIBLE"
  shows "final_bin_edges st x = []
         \<and> bin_hist (final_bin_edges st x) row = []
         \<and> day_psi (final_bin_edges st x) X i = 0
         \<and> solve_round alpha st x X_train y_train tests =
             (case sweep [] X_train y_train thresholds of
                Inl e \<Rightarrow> Inl e
              | Inr s \<Rightarrow>
                  (case confusion_matrix y_train (best_y_train_pred s) of
                     Inl e \<Rightarrow> Inl e
                   | Inr cm \<Rightarrow>
                       (case evaluate_all [] (best_train_threshold s) alpha tests of
                          Inl e \<Rightarrow> Inl e
                        | Inr rs \<Rightarrow>
                            Inr \<lparr>num_bin = - 1, training = s, training_confusion = cm,
                                 testing = rs\<rparr>)))"
  using assms
  by (simp add: final_bin_edges_failed bin_hist_no_edges day_psi_no_edges solve_round_def
      final_num_bin_def split: sum.splits)

lemma day_psi_no_edges_fun: "day_psi [] X = (\<lambda>i. 0)"
  by (rule ext) (rule day_psi_no_edges)

lemma confusion_half: "confusion_matrix [0, 1] [0, 0] = Inr [[1, 0], [1, 0]]"
  by (simp add: confusion_matrix_def check_targets_def unique_labels_def Let_def)

lemma evaluate_no_edges:
  "evaluate [] (1 / 10) (1 / 2) [flat_day, flat_day, flat_day] [0, 1] =
     Inr \<lparr>objective_0 = Fin 0, objective_1 = Fin 0, total_objective = Fin 0,
          test_acc = Fin (1 / 2), test_precision_0 = 1 / 2, test_recall_1 = 0,
          test_inverse_weighted_f2 = 4167 / 10000\<rparr>"
  by (simp add: evaluate_def predictions_def predict_three_days classify_low accuracy_half
      metric_half psi_0_test_def psi_1_test_def day_psi_no_edges_fun np_div_def Let_def)

text \<open>
  C1 as stated fails at the status \<open>INFEASIBLE\<close> with a training set and a test set of
  three equal days, transitions labelled 0 and 1: the round returns an ordinary result
  record with -1 bins.
\<close>

theorem failed_solve_counterexample:
  "solve_round (1 / 2) INFEASIBLE (\<lambda>i j. 0) [flat_day, flat_day, flat_day] [0, 1]
       [([flat_day, flat_day, flat_day], [0, 1])] =
     Inr \<lparr>num_bin = - 1,
          training = \<lparr>best_train_threshold = 1 / 10, best_train_precision_0 = 1 / 2,
            best_train_recall_1 = 0, best_train_inverse_weighted_f2 = 4167 / 10000,
            best_y_train_pred = [0, 0], train_acc = Fin (1 / 2)\<rparr>,
          training_confusion = [[1, 0], [1, 0]],
          testing = [\<lparr>objective_0 = Fin 0, objective_1 = Fin 0, total_objective = Fin 0,
            test_acc = Fin (1 / 2), test_precision_0 = 1 / 2, test_recall_1 = 0,
            test_inverse_weighted_f2 = 4167 / 10000\<rparr>]\<rparr>"
  by (simp add: solve_round_def final_bin_edges_def final_num_bin_def sweep_three_days
      confusion_half evaluate_no_edges)

theorem failed_solve_continues_witness:
  "INFEASIBLE \<noteq> OPTIMAL \<and> INFEASIBLE \<noteq> FEASIBLE
   \<and> final_bin_edges INFEASIBLE example_solution = []
   \<and> day_psi (final_bin_edges INFEASIBLE example_solution) [flat_day, flat_day, flat_day] 0 = 0
   \<and> solve_round (1 / 2) INFEASIBLE example_solution [flat_day, flat_day, flat_day] [0, 1] [] =
       Inr \<lparr>num_bin = - 1,
          training = \<lparr>best_train_threshold = 1 / 10, best_train_precision_0 = 1 / 2,
            best_train_recall_1 = 0, best_train_inverse_weighted_f2 = 4167 / 10000,
            best_y_train_pred = [0, 0], train_acc = Fin (1 / 2)\<rparr>,
          training_confusion = [[1, 0], [1, 0]], testing = []\<rparr>"
  using failed_solve_continues [of INFEASIBLE example_solution flat_day
      "[flat_day, flat_day, flat_day]" 0 "1 / 2" "[flat_day, flat_day, flat_day]" "[0, 1]" "[]"]
  by (simp add: sweep_three_days confusion_half day_psi_no_edges)

end
